theory Spec2Isabelle
  imports Complex_Main "HOL-Library.Multiset" "HOL-Library.Sublist"
begin

section \<open>JavaScript strings and regular expressions used by the analyzer\<close>

text \<open>
  A JavaScript string is modelled as a \<^typ>\<open>string\<close>: a list of code units below 256,
  read as Latin-1. Texts with code units beyond that range are outside the model.
  \<open>null\<close> and \<open>undefined\<close> are \<^term>\<open>None\<close> of an option type.
\<close>

definition isUpperAscii :: "char \<Rightarrow> bool" where
  "isUpperAscii c = (let n = (of_char c :: nat) in 65 \<le> n \<and> n \<le> 90)"

definition isLowerAscii :: "char \<Rightarrow> bool" where
  "isLowerAscii c = (let n = (of_char c :: nat) in 97 \<le> n \<and> n \<le> 122)"

definition isDigit :: "char \<Rightarrow> bool" where
  "isDigit c = (let n = (of_char c :: nat) in 48 \<le> n \<and> n \<le> 57)"

text \<open>The regular expression class \<open>\w\<close> is \<open>[A-Za-z0-9_]\<close>; \<open>\W\<close> is its complement.\<close>

definition isWordChar :: "char \<Rightarrow> bool" where
  "isWordChar c = (isUpperAscii c \<or> isLowerAscii c \<or> isDigit c \<or> c = CHR ''_'')"

text \<open>
  \<open>String.prototype.toLowerCase\<close> on Latin-1 code units: \<open>A-Z\<close> and the accented
  capitals \<open>0xC0-0xDE\<close> (but not the multiplication sign \<open>0xD7\<close>) move up by 32.
\<close>

definition toLowerChar :: "char \<Rightarrow> char" where
  "toLowerChar c =
     (let n = (of_char c :: nat)
      in if (65 \<le> n \<and> n \<le> 90) \<or> (192 \<le> n \<and> n \<le> 222 \<and> n \<noteq> 215)
         then char_of (n + 32) else c)"

definition toLowerCase :: "string \<Rightarrow> string" where
  "toLowerCase s = map toLowerChar s"

text \<open>
  White space and line terminators removed by \<open>String.prototype.trim\<close>, in the
  Latin-1 range: tab, line feed, vertical tab, form feed, carriage return, space and the
  no-break space.
\<close>

definition isWhiteSpace :: "char \<Rightarrow> bool" where
  "isWhiteSpace c =
     (let n = (of_char c :: nat) in (9 \<le> n \<and> n \<le> 13) \<or> n = 32 \<or> n = 160)"

definition trim :: "string \<Rightarrow> string" where
  "trim s = rev (dropWhile isWhiteSpace (rev (dropWhile isWhiteSpace s)))"

text \<open>\<open>startsWith s p\<close>: the pattern \<open>p\<close> is a prefix of \<open>s\<close>.\<close>

fun startsWith :: "string \<Rightarrow> string \<Rightarrow> bool" where
  "startsWith s [] = True"
| "startsWith [] (p # ps) = False"
| "startsWith (c # cs) (p # ps) = (if c = p then startsWith cs ps else False)"

text \<open>\<open>String.prototype.includes\<close>: the pattern occurs somewhere as a substring.\<close>

fun str_includes :: "string \<Rightarrow> string \<Rightarrow> bool" where
  "str_includes [] p = (p = [])"
| "str_includes (c # cs) p = (startsWith (c # cs) p \<or> str_includes cs p)"

text \<open>
  \<open>String.prototype.split\<close> with a separator of the form \<open>[class]+\<close>: each maximal
  run of separator characters ends the current piece. A separator at the very start or
  the very end leaves an empty piece there, and a string with no separator is one piece.
  \<open>inRun\<close> tells that the previous character was a separator; \<open>cur\<close> is the current
  piece, reversed.
\<close>

fun splitRuns :: "(char \<Rightarrow> bool) \<Rightarrow> bool \<Rightarrow> string \<Rightarrow> string \<Rightarrow> string list" where
  "splitRuns isSep inRun cur [] = [rev cur]"
| "splitRuns isSep inRun cur (c # cs) =
     (if isSep c then
        (if inRun then splitRuns isSep True [] cs
         else rev cur # splitRuns isSep True [] cs)
      else splitRuns isSep False (c # cur) cs)"

definition splitOn :: "(char \<Rightarrow> bool) \<Rightarrow> string \<Rightarrow> string list" where
  "splitOn isSep s = splitRuns isSep False [] s"

text \<open>
  \<open>Array.prototype.sort\<close> with a comparison function: the sort is stable, and \<open>a\<close>
  goes before \<open>b\<close> when the comparison is negative. Insertion from the right, placing
  an element before the first one it need not come after, is such a stable sort: of two
  elements that compare equal, the one that came first stays first.
\<close>

fun insertBy :: "('a \<Rightarrow> 'a \<Rightarrow> int) \<Rightarrow> 'a \<Rightarrow> 'a list \<Rightarrow> 'a list" where
  "insertBy cmp x [] = [x]"
| "insertBy cmp x (y # ys) =
     (if cmp x y \<le> 0 then x # y # ys else y # insertBy cmp x ys)"

definition sortBy :: "('a \<Rightarrow> 'a \<Rightarrow> int) \<Rightarrow> 'a list \<Rightarrow> 'a list" where
  "sortBy cmp xs = foldr (insertBy cmp) xs []"

section \<open>Text analyzer (\<open>src/utils/mentorUtils.js\<close>)\<close>

subsection \<open>\<open>extractActionItems\<close>\<close>

definition actionPhrases :: "string list" where
  "actionPhrases =
     [''need to'', ''have to'', ''should'', ''will'', ''going to'',
      ''must'', ''plan to'', ''want to'', ''intend to'']"

definition fillerWords :: "string list" where
  "fillerWords =
     [''um'', ''uh'', ''so'', ''like'', ''well'', ''i mean'', ''you know'', ''basically'']"

text \<open>
  The flag \<open>i\<close> of a regular expression compares characters after canonicalisation to
  upper case. The pattern characters here are ASCII letters and the space, and no
  character outside ASCII canonicalises into ASCII, so upper-casing \<open>a-z\<close> decides the
  comparison. \<open>canonicalize\<close> gives the code unit of the canonical character.
\<close>

definition canonicalize :: "char \<Rightarrow> nat" where
  "canonicalize c = (if isLowerAscii c then of_char c - 32 else of_char c)"

fun matchesPrefixCI :: "string \<Rightarrow> string \<Rightarrow> bool" where
  "matchesPrefixCI s [] = True"
| "matchesPrefixCI [] (p # ps) = False"
| "matchesPrefixCI (c # cs) (p # ps) =
     (if canonicalize c = canonicalize p then matchesPrefixCI cs ps else False)"

text \<open>
  \<open>s.replace(/^(um|uh|so|like|well|i mean|you know|basically)/i, '')\<close>: the first
  alternative, in the order written, that matches at the start of the string is removed;
  nothing follows the group in the pattern, so no later alternative is ever tried once one
  matches.
\<close>

definition stripFiller :: "string \<Rightarrow> string" where
  "stripFiller s =
     (case find (matchesPrefixCI s) fillerWords of
        None \<Rightarrow> s
      | Some f \<Rightarrow> drop (length f) s)"

definition isSentenceEnd :: "char \<Rightarrow> bool" where
  "isSentenceEnd c = (c = CHR ''.'' \<or> c = CHR ''!'' \<or> c = CHR ''?'')"

text \<open>
  The inner loop over the phrases: at the first phrase the lower-cased sentence contains,
  the sentence is cleaned and perhaps added, and the loop is left (\<open>break\<close>).
\<close>

fun scanPhrases :: "string list \<Rightarrow> string \<Rightarrow> string list \<Rightarrow> string list" where
  "scanPhrases [] sentence actionItems = actionItems"
| "scanPhrases (phrase # rest) sentence actionItems =
     (if str_includes (toLowerCase sentence) phrase then
        (let actionItem = trim (stripFiller (trim sentence))
         in if length actionItem > 10 \<and> actionItem \<notin> set actionItems
            then actionItems @ [actionItem] else actionItems)
      else scanPhrases rest sentence actionItems)"

fun scanSentences :: "string list \<Rightarrow> string list \<Rightarrow> string list" where
  "scanSentences [] actionItems = actionItems"
| "scanSentences (sentence # rest) actionItems =
     scanSentences rest (scanPhrases actionPhrases sentence actionItems)"

definition extractActionItems :: "string option \<Rightarrow> string list" where
  "extractActionItems text =
     (case text of
        None \<Rightarrow> []
      | Some t \<Rightarrow>
          if t = [] then []
          else
            (let sentences = filter (\<lambda>s. length (trim s) > 0) (splitOn isSentenceEnd t)
             in scanSentences sentences []))"

subsection \<open>\<open>analyzeSentiment\<close>\<close>

text \<open>
  JavaScript numbers are modelled as exact rationals: the counts are small integers, and
  the rounding of the division and of the scaling in IEEE double arithmetic is not
  modelled.
\<close>

record sentiment =
  score :: rat
  label :: string

definition positiveWords :: "string list" where
  "positiveWords =
     [''good'', ''great'', ''excellent'', ''amazing'', ''wonderful'', ''fantastic'',
      ''happy'', ''excited'', ''pleased'', ''love'', ''enjoy'', ''positive'', ''success'',
      ''achievement'', ''accomplished'', ''proud'', ''delighted'', ''perfect'']"

definition negativeWords :: "string list" where
  "negativeWords =
     [''bad'', ''terrible'', ''awful'', ''horrible'', ''poor'', ''disappointing'',
      ''sad'', ''angry'', ''upset'', ''hate'', ''dislike'', ''negative'', ''failure'',
      ''problem'', ''issue'', ''trouble'', ''difficult'', ''frustrated'', ''annoyed'']"

text \<open>The counting loop: both counters are advanced independently for each word.\<close>

fun countWords :: "string list \<Rightarrow> nat \<times> nat \<Rightarrow> nat \<times> nat" where
  "countWords [] (positiveCount, negativeCount) = (positiveCount, negativeCount)"
| "countWords (word # rest) (positiveCount, negativeCount) =
     countWords rest
       (if word \<in> set positiveWords then positiveCount + 1 else positiveCount,
        if word \<in> set negativeWords then negativeCount + 1 else negativeCount)"

definition sentimentLabel :: "rat \<Rightarrow> string" where
  "sentimentLabel s =
     (if s \<ge> 3/4 then ''very positive''
      else if s \<ge> 3/5 then ''positive''
      else if s \<ge> 2/5 then ''neutral''
      else if s \<ge> 1/4 then ''negative''
      else ''very negative'')"

definition analyzeSentiment :: "string option \<Rightarrow> sentiment" where
  "analyzeSentiment text =
     (case text of
        None \<Rightarrow> \<lparr>score = 1/2, label = ''neutral''\<rparr>
      | Some t \<Rightarrow>
          if t = [] then \<lparr>score = 1/2, label = ''neutral''\<rparr>
          else
            (let words = splitOn (\<lambda>c. \<not> isWordChar c) (toLowerCase t);
                 (positiveCount, negativeCount) = countWords words (0, 0);
                 totalWords = length words;
                 positiveScore =
                   (if totalWords > 0 then of_nat positiveCount / of_nat totalWords else 0);
                 negativeScore =
                   (if totalWords > 0 then of_nat negativeCount / of_nat totalWords else 0);
                 score0 =
                   (if positiveCount > 0 \<or> negativeCount > 0
                    then max 0 (min 1 (1/2 + (positiveScore - negativeScore) * (5/2)))
                    else 1/2)
             in \<lparr>score = score0, label = sentimentLabel score0\<rparr>))"

subsection \<open>\<open>identifyTopics\<close>\<close>

definition topicKeywords :: "(string \<times> string list) list" where
  "topicKeywords =
     [(''work'', [''job'', ''work'', ''project'', ''task'', ''deadline'', ''meeting'',
                  ''client'', ''boss'', ''colleague'']),
      (''health'', [''health'', ''exercise'', ''workout'', ''gym'', ''run'', ''sleep'',
                    ''diet'', ''food'', ''stress'', ''tired'']),
      (''productivity'', [''productive'', ''efficiency'', ''focus'', ''distraction'',
                          ''procrastination'', ''time management'', ''priority'']),
      (''learning'', [''learn'', ''study'', ''course'', ''book'', ''read'', ''knowledge'',
                      ''skill'', ''training'']),
      (''social'', [''friend'', ''family'', ''relationship'', ''social'', ''party'',
                    ''meet'', ''talk'', ''conversation'']),
      (''finance'', [''money'', ''finance'', ''budget'', ''expense'', ''cost'', ''save'',
                     ''invest'', ''purchase'', ''buy'']),
      (''technology'', [''tech'', ''computer'', ''software'', ''app'', ''device'',
                        ''phone'', ''digital'', ''online'', ''internet'']),
      (''travel'', [''travel'', ''trip'', ''vacation'', ''visit'', ''flight'', ''hotel'',
                    ''destination'', ''journey'']),
      (''creativity'', [''creative'', ''design'', ''art'', ''write'', ''create'', ''idea'',
                        ''inspiration'', ''project'']),
      (''wellbeing'', [''wellbeing'', ''happiness'', ''mood'', ''emotion'', ''feel'',
                       ''mental'', ''meditation'', ''mindfulness''])]"

text \<open>
  \<open>\b\<close> holds between two positions when exactly one of the neighbouring characters
  is a word character; the start and the end of the text count as non-word.
\<close>

definition isWordOpt :: "char option \<Rightarrow> bool" where
  "isWordOpt c = (case c of None \<Rightarrow> False | Some x \<Rightarrow> isWordChar x)"

definition wordBoundary :: "char option \<Rightarrow> char option \<Rightarrow> bool" where
  "wordBoundary left right = (isWordOpt left \<noteq> isWordOpt right)"

definition headOpt :: "string \<Rightarrow> char option" where
  "headOpt s = (case s of [] \<Rightarrow> None | c # _ \<Rightarrow> Some c)"

definition lastOpt :: "string \<Rightarrow> char option" where
  "lastOpt s = (case s of [] \<Rightarrow> None | _ \<Rightarrow> Some (last s))"

text \<open>
  Whether \<open>\bkeyword\b\<close> (flags \<open>gi\<close>) matches at the start of \<open>s\<close>, the character
  before \<open>s\<close> in the text being \<open>prev\<close>. The keywords are not empty.
\<close>

definition matchKeywordAt :: "string \<Rightarrow> char option \<Rightarrow> string \<Rightarrow> bool" where
  "matchKeywordAt keyword prev s =
     (if matchesPrefixCI s keyword then
        wordBoundary prev (headOpt s)
        \<and> wordBoundary (lastOpt (take (length keyword) s))
                         (headOpt (drop (length keyword) s))
      else False)"

text \<open>
  \<open>lowerText.match(regex).length\<close>: the number of matches found from left to right,
  each search resuming where the previous match ended. \<open>skip\<close> counts the characters
  of the last match still to be passed over.
\<close>

fun countMatches :: "string \<Rightarrow> nat \<Rightarrow> char option \<Rightarrow> string \<Rightarrow> nat" where
  "countMatches keyword skip prev [] = 0"
| "countMatches keyword skip prev (c # cs) =
     (if skip > 0 then countMatches keyword (skip - 1) (Some c) cs
      else if matchKeywordAt keyword prev (c # cs)
      then 1 + countMatches keyword (length keyword - 1) (Some c) cs
      else countMatches keyword 0 (Some c) cs)"

definition topicScore :: "string \<Rightarrow> string list \<Rightarrow> int" where
  "topicScore lowerText keywords =
     foldl (\<lambda>acc keyword. acc + int (countMatches keyword 0 None lowerText)) 0 keywords"

text \<open>
  \<open>maxTopics\<close> is a natural number (3 when the caller gives none). The entries of the
  table are visited in the order written.
\<close>

definition identifyTopics :: "string option \<Rightarrow> nat \<Rightarrow> string list" where
  "identifyTopics text maxTopics =
     (case text of
        None \<Rightarrow> []
      | Some t \<Rightarrow>
          if t = [] then []
          else
            (let lowerText = toLowerCase t;
                 topicScores = map (\<lambda>(topic, keywords). (topic, topicScore lowerText keywords))
                                   topicKeywords
             in take maxTopics
                  (map fst
                    (sortBy (\<lambda>(_, scoreA) (_, scoreB). scoreB - scoreA)
                      (filter (\<lambda>(_, s). s > 0) topicScores)))))"


subsection \<open>The score and label the specification describes\<close>







subsection \<open>\<open>calculateOptimalDeliveryTime\<close>\<close>

datatype priority = High | Medium | Low

text \<open>
  A notification as the mentor service queues it. \<open>nid\<close> is the field \<open>id\<close>, which
  is \<open>undefined\<close> (\<^term>\<open>None\<close>) on an object built without one; \<open>ntype\<close> is the
  field \<open>type\<close>. The priority is one of the three keys of the table \<open>priorityOrder\<close>
  that the queue's sort looks it up in. Times are milliseconds since the epoch, the value
  a \<open>Date\<close> compares and subtracts by.
\<close>

record notification =
  nid :: "string option"
  ntype :: string
  title :: string
  message :: string
  priority :: priority
  triggerTime :: int

definition minutes :: "int \<Rightarrow> int" where
  "minutes m = m * 60 * 1000"


section \<open>Mentor service (\<open>src/services/mentorService.js\<close>, in the README)\<close>

record conversationData =
  data_text :: string
  data_topics :: "string list option"
  data_sentiment :: "sentiment option"

record insights =
  topics :: "string list option"
  sentiment :: "sentiment option"
  actionItems :: "string list option"
  questions :: "string list"

record mentorService =
  userProfile :: "insights option"
  conversationHistory :: "(int \<times> conversationData \<times> insights) list"
  notificationQueue :: "notification list"

text \<open>The constructor: an empty profile object, no history, an empty queue.\<close>

definition newMentorService :: mentorService where
  "newMentorService =
     \<lparr>userProfile = None, conversationHistory = [], notificationQueue = []\<rparr>"

text \<open>The helper functions at the end of the service's file.\<close>

definition extractActionItems_helper :: "conversationData \<Rightarrow> string list" where
  "extractActionItems_helper conversationData = []"

definition extractQuestions :: "conversationData \<Rightarrow> string list" where
  "extractQuestions conversationData = []"

definition calculatePriority :: "string \<Rightarrow> priority" where
  "calculatePriority actionItem = Medium"

definition calculateOptimalTriggerTime :: "int \<Rightarrow> string \<Rightarrow> int" where
  "calculateOptimalTriggerTime now actionItem = now + 60 * 60 * 1000"

definition generateEncouragementMessage :: "insights \<Rightarrow> string" where
  "generateEncouragementMessage ins =
     ''I noticed you might be feeling down. Remember, challenges are opportunities for growth!''"

definition priorityOrder :: "priority \<Rightarrow> int" where
  "priorityOrder p = (case p of High \<Rightarrow> 0 | Medium \<Rightarrow> 1 | Low \<Rightarrow> 2)"

text \<open>The comparison function handed to \<open>sort\<close>.\<close>

definition compareNotifications :: "notification \<Rightarrow> notification \<Rightarrow> int" where
  "compareNotifications a b =
     (let priorityDiff = priorityOrder (priority a) - priorityOrder (priority b)
      in if priorityDiff \<noteq> 0 then priorityDiff else triggerTime a - triggerTime b)"

definition sortNotificationQueue :: "mentorService \<Rightarrow> mentorService" where
  "sortNotificationQueue st =
     st\<lparr>notificationQueue := sortBy compareNotifications (notificationQueue st)\<rparr>"

definition queueNotification :: "notification \<Rightarrow> mentorService \<Rightarrow> mentorService" where
  "queueNotification n st =
     sortNotificationQueue (st\<lparr>notificationQueue := notificationQueue st @ [n]\<rparr>)"

definition getPendingNotifications :: "int \<Rightarrow> mentorService \<Rightarrow> notification list" where
  "getPendingNotifications now st =
     filter (\<lambda>n. triggerTime n \<le> now) (notificationQueue st)"

text \<open>
  \<open>notificationIds\<close> is an array of ids; \<open>Array.prototype.includes\<close> finds
  \<open>undefined\<close> in it as it finds any other value.
\<close>

definition markNotificationsAsSent :: "string option list \<Rightarrow> mentorService \<Rightarrow> mentorService" where
  "markNotificationsAsSent notificationIds st =
     st\<lparr>notificationQueue :=
          filter (\<lambda>n. nid n \<notin> set notificationIds) (notificationQueue st)\<rparr>"

definition actionReminder :: "int \<Rightarrow> string \<Rightarrow> notification" where
  "actionReminder now item =
     \<lparr>nid = None, ntype = ''action_reminder'', title = ''Action Item Reminder'',
      message = ''Don't forget to: '' @ item,
      priority = calculatePriority item,
      triggerTime = calculateOptimalTriggerTime now item\<rparr>"

definition encouragement :: "int \<Rightarrow> insights \<Rightarrow> notification" where
  "encouragement now ins =
     \<lparr>nid = None, ntype = ''encouragement'', title = ''A little encouragement'',
      message = generateEncouragementMessage ins,
      priority = Medium,
      triggerTime = now + 15 * 60 * 1000\<rparr>"

text \<open>
  \<open>generateNotifications\<close>. The clock is read once per call: \<open>now\<close> is the value of
  every \<open>Date.now()\<close> in it. The objects handed to \<open>queueNotification\<close> have no field
  \<open>id\<close>. A sentiment whose score is below \<open>0.3\<close> qualifies; the score is an exact
  rational here.
\<close>

definition generateNotifications :: "int \<Rightarrow> insights \<Rightarrow> mentorService \<Rightarrow> mentorService" where
  "generateNotifications now ins st =
     (let st1 =
            (case actionItems ins of
               None \<Rightarrow> st
             | Some items \<Rightarrow>
                 if length items > 0
                 then foldl (\<lambda>s item. queueNotification (actionReminder now item) s) st items
                 else st)
      in case sentiment ins of
           None \<Rightarrow> st1
         | Some sen \<Rightarrow>
             if score sen < 3/10 then queueNotification (encouragement now ins) st1
             else st1)"

definition extractInsights :: "conversationData \<Rightarrow> insights" where
  "extractInsights conversationData =
     \<lparr>topics = data_topics conversationData,
      sentiment = data_sentiment conversationData,
      actionItems = Some (extractActionItems_helper conversationData),
      questions = extractQuestions conversationData\<rparr>"

text \<open>
  \<open>updateUserProfile\<close>: the spread of the insights over the profile replaces all four
  fields, so the profile becomes the new insights.
\<close>

definition updateUserProfile :: "int \<Rightarrow> conversationData \<Rightarrow> mentorService \<Rightarrow> mentorService" where
  "updateUserProfile now conversationData st =
     (let ins = extractInsights conversationData;
          st1 = st\<lparr>userProfile := Some ins\<rparr>;
          st2 = st1\<lparr>conversationHistory :=
                      conversationHistory st1 @ [(now, conversationData, ins)]\<rparr>
      in generateNotifications now ins st2)"

text \<open>
  The states of the service: those its methods produce from a new service.
\<close>

inductive reachable :: "mentorService \<Rightarrow> bool" where
  reach_new: "reachable newMentorService"
| reach_queue: "reachable st \<Longrightarrow> reachable (queueNotification n st)"
| reach_generate: "reachable st \<Longrightarrow> reachable (generateNotifications now ins st)"
| reach_update: "reachable st \<Longrightarrow> reachable (updateUserProfile now conversationData st)"
| reach_sort: "reachable st \<Longrightarrow> reachable (sortNotificationQueue st)"
| reach_mark: "reachable st \<Longrightarrow> reachable (markNotificationsAsSent notificationIds st)"

text \<open>
  The delivery order the specification describes: higher urgency first, and among equal
  priorities the earlier trigger time first.
\<close>

definition urgencyRank :: "priority \<Rightarrow> nat" where
  "urgencyRank p = (case p of High \<Rightarrow> 0 | Medium \<Rightarrow> 1 | Low \<Rightarrow> 2)"

definition deliveredNoLater :: "notification \<Rightarrow> notification \<Rightarrow> bool" where
  "deliveredNoLater a b =
     (urgencyRank (priority a) < urgencyRank (priority b)
      \<or> (urgencyRank (priority a) = urgencyRank (priority b)
          \<and> triggerTime a \<le> triggerTime b))"

text \<open>The queue of a state is in delivery order.\<close>

definition queueSorted :: "mentorService \<Rightarrow> bool" where
  "queueSorted st = sorted_wrt deliveredNoLater (notificationQueue st)"

section \<open>Notification service (\<open>src/services/notificationService.js\<close>, in the README)\<close>

text \<open>
  The timers of the host: \<open>setInterval\<close> registers a recurring callback and returns a
  fresh handle, \<open>clearInterval\<close> cancels the callback of a handle. \<open>active\<close> lists the
  handles whose callbacks still fire. Handles start at 1, so every handle is truthy.
\<close>

record timers =
  active :: "nat list"
  nextHandle :: nat

definition noTimers :: timers where
  "noTimers = \<lparr>active = [], nextHandle = 1\<rparr>"

definition setInterval :: "timers \<Rightarrow> nat \<times> timers" where
  "setInterval tm =
     (nextHandle tm,
      \<lparr>active = active tm @ [nextHandle tm], nextHandle = nextHandle tm + 1\<rparr>)"

definition clearInterval :: "nat \<Rightarrow> timers \<Rightarrow> timers" where
  "clearInterval h tm = tm\<lparr>active := removeAll h (active tm)\<rparr>"

record notificationService =
  notificationInterval :: "nat option"

definition newNotificationService :: notificationService where
  "newNotificationService = \<lparr>notificationInterval = None\<rparr>"

definition start :: "notificationService \<times> timers \<Rightarrow> notificationService \<times> timers" where
  "start w =
     (case w of (svc, tm) \<Rightarrow>
        (case setInterval tm of (h, tm') \<Rightarrow>
           (svc\<lparr>notificationInterval := Some h\<rparr>, tm')))"

definition stop :: "notificationService \<times> timers \<Rightarrow> notificationService \<times> timers" where
  "stop w =
     (case w of (svc, tm) \<Rightarrow>
        (case notificationInterval svc of
           None \<Rightarrow> (svc, tm)
         | Some h \<Rightarrow>
             if h \<noteq> 0 then (svc\<lparr>notificationInterval := None\<rparr>, clearInterval h tm)
             else (svc, tm)))"

definition running :: "notificationService \<Rightarrow> bool" where
  "running svc = (notificationInterval svc \<noteq> None)"

text \<open>
  One tick, \<open>checkAndSendNotifications\<close>. \<open>send n\<close> tells whether
  \<open>sendNotification(n)\<close> resolves (\<^term>\<open>True\<close>) or throws. The loop collects the id of
  each notification sent; a failure is caught and the loop goes on. The trace records the
  notifications for which dispatch was attempted and the argument of each call of
  \<open>markNotificationsAsSent\<close>. The tick is taken to run without another operation on the
  queue in between.
\<close>

record tickTrace =
  attempted :: "notification list"
  markCalls :: "string option list list"

fun sendLoop ::
  "(notification \<Rightarrow> bool) \<Rightarrow> notification list \<Rightarrow> notification list \<times> string option list
     \<Rightarrow> notification list \<times> string option list" where
  "sendLoop send [] (tried, sentNotificationIds) = (tried, sentNotificationIds)"
| "sendLoop send (n # rest) (tried, sentNotificationIds) =
     (if send n then sendLoop send rest (tried @ [n], sentNotificationIds @ [nid n])
      else sendLoop send rest (tried @ [n], sentNotificationIds))"

definition checkAndSendNotifications ::
  "int \<Rightarrow> (notification \<Rightarrow> bool) \<Rightarrow> mentorService \<Rightarrow> mentorService \<times> tickTrace" where
  "checkAndSendNotifications now send st =
     (let pendingNotifications = getPendingNotifications now st
      in if length pendingNotifications = 0
         then (st, \<lparr>attempted = [], markCalls = []\<rparr>)
         else
           (case sendLoop send pendingNotifications ([], []) of
              (tried, sentNotificationIds) \<Rightarrow>
                (markNotificationsAsSent sentNotificationIds st,
                 \<lparr>attempted = tried, markCalls = [sentNotificationIds]\<rparr>)))"

section \<open>Properties of the text analyzer\<close>

subsection \<open>Sentiment score and label\<close>









subsection \<open>The filler-word strip has no word boundary\<close>

lemmas action_eval =
  extractActionItems_def splitOn_def isSentenceEnd_def trim_def isWhiteSpace_def
  actionPhrases_def stripFiller_def fillerWords_def canonicalize_def isLowerAscii_def

lemma toLowerCase_someone:
  "toLowerCase ''Someone will review the document tomorrow''
     = ''someone will review the document tomorrow''"
  by (simp add: toLowerCase_def toLowerChar_def char_of_eq_iff)

text \<open>
  Claim C10. The sentence "Someone will review the document tomorrow" contains the
  action phrase "will"; the prefix pattern matches its first two letters "So" as the
  filler word "so", with no word boundary asked for, and the action item returned is
  "meone will review the document tomorrow".
\<close>

theorem extractActionItems_strips_inside_word:
  "extractActionItems (Some ''Someone will review the document tomorrow'')
     = [''meone will review the document tomorrow'']"
  by (simp add: action_eval toLowerCase_someone)

subsection \<open>The report-and-meeting scenario\<close>

lemma toLowerCase_report_sentences:
  "toLowerCase ''I need to finish the report by tomorrow''
     = ''i need to finish the report by tomorrow''"
  "toLowerCase '' It was a great meeting'' = '' it was a great meeting''"
  by (simp_all add: toLowerCase_def toLowerChar_def char_of_eq_iff)

lemma toLowerCase_report_text:
  "toLowerCase ''I need to finish the report by tomorrow. It was a great meeting.''
     = ''i need to finish the report by tomorrow. it was a great meeting.''"
  by (simp add: toLowerCase_def toLowerChar_def char_of_eq_iff)

lemma extractActionItems_report_text:
  "extractActionItems (Some ''I need to finish the report by tomorrow. It was a great meeting.'')
     = [''I need to finish the report by tomorrow'']"
  by (simp add: action_eval toLowerCase_report_sentences)

lemma split_report_text:
  "splitOn (\<lambda>c. \<not> isWordChar c)
       ''i need to finish the report by tomorrow. it was a great meeting.''
     = [''i'', ''need'', ''to'', ''finish'', ''the'', ''report'', ''by'', ''tomorrow'',
        ''it'', ''was'', ''a'', ''great'', ''meeting'', []]"
  by (simp add: splitOn_def isWordChar_def isUpperAscii_def isLowerAscii_def isDigit_def)

lemma countWords_report_text:
  "countWords [''i'', ''need'', ''to'', ''finish'', ''the'', ''report'', ''by'', ''tomorrow'',
               ''it'', ''was'', ''a'', ''great'', ''meeting'', []] (0, 0) = (1, 0)"
  by (simp add: positiveWords_def negativeWords_def)

lemma analyzeSentiment_report_text:
  "analyzeSentiment (Some ''I need to finish the report by tomorrow. It was a great meeting.'')
     = \<lparr>score = 19 / 28, label = ''positive''\<rparr>"
  apply (simp only: analyzeSentiment_def option.case list.simps if_False Let_def
           toLowerCase_report_text split_report_text countWords_report_text prod.case)
  apply (simp add: sentimentLabel_def)
  done

lemma canonicalize_table:
  "canonicalize CHR ''a'' = 65" "canonicalize CHR ''b'' = 66" "canonicalize CHR ''c'' = 67"
  "canonicalize CHR ''d'' = 68" "canonicalize CHR ''e'' = 69" "canonicalize CHR ''f'' = 70"
  "canonicalize CHR ''g'' = 71" "canonicalize CHR ''h'' = 72" "canonicalize CHR ''i'' = 73"
  "canonicalize CHR ''j'' = 74" "canonicalize CHR ''k'' = 75" "canonicalize CHR ''l'' = 76"
  "canonicalize CHR ''m'' = 77" "canonicalize CHR ''n'' = 78" "canonicalize CHR ''o'' = 79"
  "canonicalize CHR ''p'' = 80" "canonicalize CHR ''q'' = 81" "canonicalize CHR ''r'' = 82"
  "canonicalize CHR ''s'' = 83" "canonicalize CHR ''t'' = 84" "canonicalize CHR ''u'' = 85"
  "canonicalize CHR ''v'' = 86" "canonicalize CHR ''w'' = 87" "canonicalize CHR ''x'' = 88"
  "canonicalize CHR ''y'' = 89" "canonicalize CHR ''z'' = 90" "canonicalize CHR '' '' = 32"
  "canonicalize CHR ''.'' = 46"
  by (simp_all add: canonicalize_def isLowerAscii_def)

lemmas keyword_eval =
  topicScore_def matchKeywordAt_def canonicalize_table wordBoundary_def isWordOpt_def
  headOpt_def lastOpt_def isWordChar_def isUpperAscii_def isLowerAscii_def isDigit_def

lemma topicScore_work:
  "topicScore ''i need to finish the report by tomorrow. it was a great meeting.''
     [''job'', ''work'', ''project'', ''task'', ''deadline'', ''meeting'', ''client'',
      ''boss'', ''colleague''] = 1"
  by (simp add: keyword_eval)

lemma topicScore_health:
  "topicScore ''i need to finish the report by tomorrow. it was a great meeting.''
     [''health'', ''exercise'', ''workout'', ''gym'', ''run'', ''sleep'', ''diet'',
      ''food'', ''stress'', ''tired''] = 0"
  by (simp add: keyword_eval)

lemma topicScore_productivity:
  "topicScore ''i need to finish the report by tomorrow. it was a great meeting.''
     [''productive'', ''efficiency'', ''focus'', ''distraction'', ''procrastination'',
      ''time management'', ''priority''] = 0"
  by (simp add: keyword_eval)

lemma topicScore_learning:
  "topicScore ''i need to finish the report by tomorrow. it was a great meeting.''
     [''learn'', ''study'', ''course'', ''book'', ''read'', ''knowledge'', ''skill'',
      ''training''] = 0"
  by (simp add: keyword_eval)

lemma topicScore_social:
  "topicScore ''i need to finish the report by tomorrow. it was a great meeting.''
     [''friend'', ''family'', ''relationship'', ''social'', ''party'', ''meet'',
      ''talk'', ''conversation''] = 0"
  by (simp add: keyword_eval)

lemma topicScore_finance:
  "topicScore ''i need to finish the report by tomorrow. it was a great meeting.''
     [''money'', ''finance'', ''budget'', ''expense'', ''cost'', ''save'', ''invest'',
      ''purchase'', ''buy''] = 0"
  by (simp add: keyword_eval)

lemma topicScore_technology:
  "topicScore ''i need to finish the report by tomorrow. it was a great meeting.''
     [''tech'', ''computer'', ''software'', ''app'', ''device'', ''phone'', ''digital'',
      ''online'', ''internet''] = 0"
  by (simp add: keyword_eval)

lemma topicScore_travel:
  "topicScore ''i need to finish the report by tomorrow. it was a great meeting.''
     [''travel'', ''trip'', ''vacation'', ''visit'', ''flight'', ''hotel'',
      ''destination'', ''journey''] = 0"
  by (simp add: keyword_eval)

lemma topicScore_creativity:
  "topicScore ''i need to finish the report by tomorrow. it was a great meeting.''
     [''creative'', ''design'', ''art'', ''write'', ''create'', ''idea'',
      ''inspiration'', ''project''] = 0"
  by (simp add: keyword_eval)

lemma topicScore_wellbeing:
  "topicScore ''i need to finish the report by tomorrow. it was a great meeting.''
     [''wellbeing'', ''happiness'', ''mood'', ''emotion'', ''feel'', ''mental'',
      ''meditation'', ''mindfulness''] = 0"
  by (simp add: keyword_eval)

lemma identifyTopics_report_text:
  "identifyTopics (Some ''I need to finish the report by tomorrow. It was a great meeting.'') 3
     = [''work'']"
  apply (simp only: identifyTopics_def option.case list.simps if_False Let_def
           toLowerCase_report_text topicKeywords_def prod.case
           topicScore_work topicScore_health topicScore_productivity topicScore_learning topicScore_social
           topicScore_finance topicScore_technology topicScore_travel topicScore_creativity topicScore_wellbeing)
  apply (simp add: sortBy_def)
  done

text \<open>
  Claim C3, as stated, fails on the code: no action item of the scenario text begins with
  "finish the report". The filler words are "um", "uh", "so", "like", "well", "i mean",
  "you know" and "basically"; "I need to" is none of them and stays.
\<close>

theorem scenario_action_item_prefix_counterexample:
  "\<not> list_ex (\<lambda>item. startsWith item ''finish the report'')
        (extractActionItems
           (Some ''I need to finish the report by tomorrow. It was a great meeting.''))"
  by (simp add: extractActionItems_report_text)

text \<open>
  Claim C3, amended. For the scenario text the action items are the whole first sentence,
  "I need to finish the report by tomorrow", which contains "finish the report" but
  begins with "I need to"; the sentiment label is "positive" (score 19/28, from one hit
  among fourteen pieces); and the topics are exactly "work".
\<close>

theorem scenario_report_and_meeting:
  "extractActionItems (Some ''I need to finish the report by tomorrow. It was a great meeting.'')
     = [''I need to finish the report by tomorrow'']
   \<and> str_includes ''I need to finish the report by tomorrow'' ''finish the report''
   \<and> \<not> startsWith ''I need to finish the report by tomorrow'' ''finish the report''
   \<and> label (analyzeSentiment
               (Some ''I need to finish the report by tomorrow. It was a great meeting.''))
       = ''positive''
   \<and> identifyTopics (Some ''I need to finish the report by tomorrow. It was a great meeting.'') 3
       = [''work'']"
  by (simp add: extractActionItems_report_text analyzeSentiment_report_text
        identifyTopics_report_text)

section \<open>Properties of the mentor service's queue\<close>

subsection \<open>The stable sort and the delivery order\<close>

lemma mset_insertBy: "mset (insertBy cmp x xs) = add_mset x (mset xs)"
  by (induction xs) simp_all

lemma mset_sortBy: "mset (sortBy cmp xs) = mset xs"
  by (induction xs) (simp_all add: sortBy_def mset_insertBy)

lemma set_insertBy: "set (insertBy cmp x xs) = insert x (set xs)"
  by (induction xs) auto

lemma compareNotifications_le_iff:
  "compareNotifications a b \<le> 0 \<longleftrightarrow> deliveredNoLater a b"
  by (cases "priority a"; cases "priority b")
     (simp_all add: compareNotifications_def deliveredNoLater_def priorityOrder_def
        urgencyRank_def)

lemma deliveredNoLater_total: "deliveredNoLater a b \<or> deliveredNoLater b a"
  by (auto simp add: deliveredNoLater_def)

lemma deliveredNoLater_trans:
  "deliveredNoLater a b \<Longrightarrow> deliveredNoLater b c \<Longrightarrow> deliveredNoLater a c"
  by (auto simp add: deliveredNoLater_def)

lemma sorted_insertBy:
  assumes "sorted_wrt deliveredNoLater xs"
  shows "sorted_wrt deliveredNoLater (insertBy compareNotifications x xs)"
  using assms
proof (induction xs)
  case Nil
  then show ?case by simp
next
  case (Cons y ys)
  show ?case
  proof (cases "compareNotifications x y \<le> 0")
    case True
    then have xy: "deliveredNoLater x y" by (simp add: compareNotifications_le_iff)
    have "deliveredNoLater x z" if "z \<in> set ys" for z
      using Cons.prems that xy deliveredNoLater_trans by auto
    with True xy Cons.prems show ?thesis by simp
  next
    case False
    then have yx: "deliveredNoLater y x"
      using deliveredNoLater_total [of x y] by (simp add: compareNotifications_le_iff)
    from Cons have "sorted_wrt deliveredNoLater (insertBy compareNotifications x ys)"
      by simp
    with False yx Cons.prems show ?thesis by (simp add: set_insertBy)
  qed
qed

lemma sorted_sortBy: "sorted_wrt deliveredNoLater (sortBy compareNotifications xs)"
proof (induction xs)
  case Nil
  then show ?case by (simp add: sortBy_def)
next
  case (Cons x xs)
  then show ?case using sorted_insertBy [of "sortBy compareNotifications xs" x]
    by (simp add: sortBy_def)
qed

subsection \<open>Every reachable queue is in delivery order\<close>

lemma queueSorted_queueNotification: "queueSorted (queueNotification n st)"
  by (simp add: queueSorted_def queueNotification_def sortNotificationQueue_def sorted_sortBy)

lemma queueSorted_foldl:
  "queueSorted st \<Longrightarrow> queueSorted (foldl (\<lambda>s item. queueNotification (f item) s) st items)"
  by (induction items arbitrary: st) (simp_all add: queueSorted_queueNotification)

lemma queueSorted_generateNotifications:
  "queueSorted st \<Longrightarrow> queueSorted (generateNotifications now ins st)"
  by (simp add: generateNotifications_def Let_def queueSorted_foldl
        queueSorted_queueNotification split: option.splits)

lemma queueSorted_updateUserProfile:
  "queueSorted st \<Longrightarrow> queueSorted (updateUserProfile now conversationData st)"
  unfolding updateUserProfile_def Let_def
  by (rule queueSorted_generateNotifications) (simp add: queueSorted_def)

lemma queueSorted_markNotificationsAsSent:
  "queueSorted st \<Longrightarrow> queueSorted (markNotificationsAsSent notificationIds st)"
  by (simp add: queueSorted_def markNotificationsAsSent_def sorted_wrt_filter)

lemma reachable_queueSorted: "reachable st \<Longrightarrow> queueSorted st"
proof (induction rule: reachable.induct)
  case reach_new
  then show ?case by (simp add: queueSorted_def newMentorService_def)
next
  case (reach_queue st n)
  show ?case by (rule queueSorted_queueNotification)
next
  case (reach_generate st now ins)
  then show ?case by (simp add: queueSorted_generateNotifications)
next
  case (reach_update st now conversationData)
  then show ?case by (simp add: queueSorted_updateUserProfile)
next
  case (reach_sort st)
  then show ?case by (simp add: queueSorted_def sortNotificationQueue_def sorted_sortBy)
next
  case (reach_mark st notificationIds)
  then show ?case by (simp add: queueSorted_markNotificationsAsSent)
qed

lemma queue_low_high_medium:
  assumes "priority a = Low" "priority b = High" "priority c = Medium"
  shows "notificationQueue
           (queueNotification c (queueNotification b (queueNotification a newMentorService)))
         = [b, c, a]"
  using assms
  by (simp add: queueNotification_def sortNotificationQueue_def newMentorService_def
        sortBy_def compareNotifications_def priorityOrder_def)

text \<open>
  Claim C1. In every state of the service that its methods produce from a new service, and
  for every time \<open>now\<close>, \<open>getPendingNotifications\<close> returns exactly the queued
  notifications whose trigger time is at most \<open>now\<close> (with their multiplicities), in
  delivery order: higher urgency first, then ascending trigger time. In particular three
  due notifications with priorities low, high and medium, queued in that order, come back
  as high, medium, low.
\<close>

theorem getPendingNotifications_due_in_delivery_order:
  assumes "reachable st"
  shows "mset (getPendingNotifications now st)
           = filter_mset (\<lambda>n. triggerTime n \<le> now) (mset (notificationQueue st))
         \<and> subseq (getPendingNotifications now st) (notificationQueue st)
         \<and> sorted_wrt deliveredNoLater (getPendingNotifications now st)
         \<and> (priority a = Low \<and> priority b = High \<and> priority c = Medium
              \<and> triggerTime a \<le> now \<and> triggerTime b \<le> now \<and> triggerTime c \<le> now
             \<longrightarrow> getPendingNotifications now
                   (queueNotification c (queueNotification b
                      (queueNotification a newMentorService)))
                 = [b, c, a])"
proof -
  have "queueSorted st" using assms by (rule reachable_queueSorted)
  then have "sorted_wrt deliveredNoLater (getPendingNotifications now st)"
    by (simp add: queueSorted_def getPendingNotifications_def sorted_wrt_filter)
  moreover have "mset (getPendingNotifications now st)
           = filter_mset (\<lambda>n. triggerTime n \<le> now) (mset (notificationQueue st))"
    by (simp add: getPendingNotifications_def)
  moreover have "subseq (getPendingNotifications now st) (notificationQueue st)"
    by (simp add: getPendingNotifications_def)
  ultimately show ?thesis
    by (auto simp add: queue_low_high_medium getPendingNotifications_def)
qed

theorem getPendingNotifications_due_in_delivery_order_witness:
  "reachable
     (queueNotification
        \<lparr>nid = None, ntype = ''c'', title = ''c'', message = ''c'', priority = Medium,
         triggerTime = 30\<rparr>
        (queueNotification
           \<lparr>nid = None, ntype = ''b'', title = ''b'', message = ''b'', priority = High,
            triggerTime = 20\<rparr>
           (queueNotification
              \<lparr>nid = None, ntype = ''a'', title = ''a'', message = ''a'', priority = Low,
               triggerTime = 10\<rparr>
              newMentorService)))
   \<and> map priority
       (getPendingNotifications 100
          (queueNotification
             \<lparr>nid = None, ntype = ''c'', title = ''c'', message = ''c'', priority = Medium,
              triggerTime = 30\<rparr>
             (queueNotification
                \<lparr>nid = None, ntype = ''b'', title = ''b'', message = ''b'', priority = High,
                 triggerTime = 20\<rparr>
                (queueNotification
                   \<lparr>nid = None, ntype = ''a'', title = ''a'', message = ''a'',
                    priority = Low, triggerTime = 10\<rparr>
                   newMentorService))))
     = [High, Medium, Low]"
proof -
  let ?a = "\<lparr>nid = None, ntype = ''a'', title = ''a'', message = ''a'', priority = Low,
             triggerTime = 10\<rparr>"
  let ?b = "\<lparr>nid = None, ntype = ''b'', title = ''b'', message = ''b'', priority = High,
             triggerTime = 20\<rparr>"
  let ?c = "\<lparr>nid = None, ntype = ''c'', title = ''c'', message = ''c'', priority = Medium,
             triggerTime = 30\<rparr>"
  let ?st = "queueNotification ?c (queueNotification ?b (queueNotification ?a newMentorService))"
  have r: "reachable ?st"
    by (intro reachable.intros)
  from getPendingNotifications_due_in_delivery_order [OF r, of 100 ?a ?b ?c]
  have "getPendingNotifications 100 ?st = [?b, ?c, ?a]" by simp
  with r show ?thesis by simp
qed

subsection \<open>Removing sent notifications\<close>

text \<open>
  Claim C8. For every state and every list of ids, \<open>markNotificationsAsSent\<close> keeps
  exactly the notifications whose id is not in the list, in their order; ids that no
  queued notification carries change nothing; and a second call with the same ids changes
  nothing more.
\<close>

theorem markNotificationsAsSent_removes_exactly:
  "mset (notificationQueue (markNotificationsAsSent ids st))
     = filter_mset (\<lambda>n. nid n \<notin> set ids) (mset (notificationQueue st))
   \<and> subseq (notificationQueue (markNotificationsAsSent ids st)) (notificationQueue st)
   \<and> (set ids \<inter> nid ` set (notificationQueue st) = {}
       \<longrightarrow> markNotificationsAsSent ids st = st)
   \<and> markNotificationsAsSent ids (markNotificationsAsSent ids st)
       = markNotificationsAsSent ids st"
proof -
  have "filter (\<lambda>n. nid n \<notin> set ids) (notificationQueue st) = notificationQueue st"
    if "set ids \<inter> nid ` set (notificationQueue st) = {}"
    using that by (auto simp add: filter_id_conv)
  then show ?thesis
    by (simp add: markNotificationsAsSent_def)
qed

theorem markNotificationsAsSent_removes_exactly_witness:
  "set [Some ''n9''] \<inter> nid ` set (notificationQueue
       \<lparr>userProfile = None, conversationHistory = [],
        notificationQueue =
          [\<lparr>nid = Some ''n1'', ntype = ''t'', title = ''a'', message = ''m'',
            priority = High, triggerTime = 0\<rparr>]\<rparr>) = {}
   \<and> markNotificationsAsSent [Some ''n9'']
       \<lparr>userProfile = None, conversationHistory = [],
        notificationQueue =
          [\<lparr>nid = Some ''n1'', ntype = ''t'', title = ''a'', message = ''m'',
            priority = High, triggerTime = 0\<rparr>]\<rparr>
     = \<lparr>userProfile = None, conversationHistory = [],
        notificationQueue =
          [\<lparr>nid = Some ''n1'', ntype = ''t'', title = ''a'', message = ''m'',
            priority = High, triggerTime = 0\<rparr>]\<rparr>"
  using markNotificationsAsSent_removes_exactly
    [of "[Some ''n9'']"
        "\<lparr>userProfile = None, conversationHistory = [],
          notificationQueue =
            [\<lparr>nid = Some ''n1'', ntype = ''t'', title = ''a'', message = ''m'',
              priority = High, triggerTime = 0\<rparr>]\<rparr>"]
  by simp

subsection \<open>What \<open>generateNotifications\<close> enqueues\<close>

lemma mset_queueNotification:
  "mset (notificationQueue (queueNotification n st)) = add_mset n (mset (notificationQueue st))"
  by (simp add: queueNotification_def sortNotificationQueue_def mset_sortBy)

lemma mset_foldl_queueNotification:
  "mset (notificationQueue (foldl (\<lambda>s item. queueNotification (f item) s) st items))
     = mset (notificationQueue st) + mset (map f items)"
  by (induction items arbitrary: st) (simp_all add: mset_queueNotification)

lemma mset_generateNotifications:
  "mset (notificationQueue (generateNotifications now ins st))
     = mset (notificationQueue st)
       + mset (map (actionReminder now)
                 (case actionItems ins of None \<Rightarrow> [] | Some items \<Rightarrow> items))
       + (if (case sentiment ins of None \<Rightarrow> False | Some sen \<Rightarrow> score sen < 3/10)
          then {#encouragement now ins#} else {#})"
  by (simp add: generateNotifications_def Let_def mset_queueNotification
        mset_foldl_queueNotification split: option.splits)

lemma generateNotifications_only_sentiment:
  assumes "actionItems ins = None \<or> actionItems ins = Some []"
    and "sentiment ins = Some sen" and "score sen < 3/10"
  shows "notificationQueue (generateNotifications now ins newMentorService)
           = [encouragement now ins]"
  using assms
  by (auto simp add: generateNotifications_def Let_def queueNotification_def
        sortNotificationQueue_def newMentorService_def sortBy_def)

text \<open>
  Claim C9. \<open>generateNotifications\<close> adds to the queue one reminder for each action item
  and, if and only if the insights carry a sentiment whose score is below 0.3, one
  encouragement notification; nothing else is added or removed. In particular, called at
  time \<open>T\<close> on a new service with a sentiment of score 0.2 and no action items, it leaves
  exactly one notification in the queue: the encouragement, of medium priority, with
  trigger time \<open>T\<close> plus 15 minutes.
\<close>

theorem generateNotifications_sentiment_threshold:
  "mset (notificationQueue (generateNotifications now ins st))
     = mset (notificationQueue st)
       + mset (map (actionReminder now)
                 (case actionItems ins of None \<Rightarrow> [] | Some items \<Rightarrow> items))
       + (if (case sentiment ins of None \<Rightarrow> False | Some sen \<Rightarrow> score sen < 3/10)
          then {#encouragement now ins#} else {#})
   \<and> ((actionItems ins = None \<or> actionItems ins = Some [])
        \<and> sentiment ins = Some sen \<and> score sen = 1/5
       \<longrightarrow> notificationQueue (generateNotifications T ins newMentorService)
             = [encouragement T ins]
           \<and> ntype (encouragement T ins) = ''encouragement''
           \<and> priority (encouragement T ins) = Medium
           \<and> triggerTime (encouragement T ins) = T + minutes 15)"
proof -
  have "notificationQueue (generateNotifications T ins newMentorService)
          = [encouragement T ins]"
    if "actionItems ins = None \<or> actionItems ins = Some []"
      and "sentiment ins = Some sen" and "score sen = 1/5"
    using that generateNotifications_only_sentiment [of ins sen T] by simp
  then show ?thesis
    by (simp add: mset_generateNotifications encouragement_def minutes_def)
qed

theorem generateNotifications_sentiment_threshold_witness:
  "notificationQueue
     (generateNotifications 1000
        \<lparr>topics = None, sentiment = Some \<lparr>score = 1/5, label = ''very negative''\<rparr>,
         actionItems = Some [], questions = []\<rparr>
        newMentorService)
   = [\<lparr>nid = None, ntype = ''encouragement'', title = ''A little encouragement'',
       message = ''I noticed you might be feeling down. Remember, challenges are opportunities for growth!'',
       priority = Medium, triggerTime = 901000\<rparr>]"
  using generateNotifications_sentiment_threshold
    [of 1000
        "\<lparr>topics = None, sentiment = Some \<lparr>score = 1/5, label = ''very negative''\<rparr>,
          actionItems = Some [], questions = []\<rparr>"
        newMentorService
        "\<lparr>score = 1/5, label = ''very negative''\<rparr>"
        1000]
  by (simp add: encouragement_def generateEncouragementMessage_def)

subsection \<open>The delivery-time policy is not the one \<open>generateNotifications\<close> uses\<close>





subsection \<open>Queued notifications carry no id\<close>

text \<open>
  Claim C5 fails on the code. Two conversations with a sentiment score of 0.2, handed to
  \<open>updateUserProfile\<close> at times 0 and 1, leave two notifications in the queue, and both
  have the id \<open>undefined\<close>: the objects \<open>generateNotifications\<close> queues are built
  without an id.
\<close>

theorem queue_holds_two_notifications_with_same_id:
  "map nid
     (notificationQueue
        (updateUserProfile 1
           \<lparr>data_text = ''awful again'', data_topics = None,
            data_sentiment = Some \<lparr>score = 1/5, label = ''very negative''\<rparr>\<rparr>
           (updateUserProfile 0
              \<lparr>data_text = ''awful'', data_topics = None,
               data_sentiment = Some \<lparr>score = 1/5, label = ''very negative''\<rparr>\<rparr>
              newMentorService)))
   = [None, None]"
  by (simp add: updateUserProfile_def extractInsights_def extractActionItems_helper_def
        extractQuestions_def generateNotifications_def Let_def queueNotification_def
        sortNotificationQueue_def newMentorService_def sortBy_def encouragement_def
        compareNotifications_def priorityOrder_def)

section \<open>Properties of the notification service\<close>

subsection \<open>Starting twice\<close>

text \<open>
  Claim C6 fails on the code. \<open>start\<close> takes a stopped service to a running one with a
  single interval, but it has no guard: a second \<open>start\<close> registers a second interval
  and overwrites the handle of the first, and \<open>stop\<close> then cancels only the second. After
  \<open>start(); start(); stop()\<close> the service holds no handle and the first interval still
  fires.
\<close>

theorem second_start_leaves_interval_after_stop:
  "\<not> running newNotificationService
   \<and> start (newNotificationService, noTimers)
       = (\<lparr>notificationInterval = Some 1\<rparr>, \<lparr>active = [1], nextHandle = 2\<rparr>)
   \<and> start (start (newNotificationService, noTimers))
       = (\<lparr>notificationInterval = Some 2\<rparr>, \<lparr>active = [1, 2], nextHandle = 3\<rparr>)
   \<and> stop (start (start (newNotificationService, noTimers)))
       = (\<lparr>notificationInterval = None\<rparr>, \<lparr>active = [1], nextHandle = 3\<rparr>)"
  by (simp add: running_def newNotificationService_def noTimers_def start_def stop_def
        setInterval_def clearInterval_def)

subsection \<open>One tick\<close>

lemma sendLoop_eq:
  "sendLoop send ns (tried, ids) = (tried @ ns, ids @ map nid (filter send ns))"
  by (induction ns arbitrary: tried ids) simp_all

lemma checkAndSendNotifications_eq:
  "checkAndSendNotifications now send st =
     (if getPendingNotifications now st = [] then (st, \<lparr>attempted = [], markCalls = []\<rparr>)
      else (markNotificationsAsSent
              (map nid (filter send (getPendingNotifications now st))) st,
            \<lparr>attempted = getPendingNotifications now st,
             markCalls = [map nid (filter send (getPendingNotifications now st))]\<rparr>))"
  by (simp add: checkAndSendNotifications_def Let_def sendLoop_eq)

text \<open>
  Claim C7, as stated, fails on the code in two ways. A tick that finds nothing pending
  returns before the call of \<open>markNotificationsAsSent\<close>, which is then made zero times.
  And a failed notification stays only if its id differs from the ids sent: of two queued
  notifications without id, the first failing and the second sent, none is left.
\<close>

theorem checkAndSendNotifications_counterexample:
  "markCalls (snd (checkAndSendNotifications 0 (\<lambda>n. True) newMentorService)) = []
   \<and> getPendingNotifications 10
       (queueNotification
          \<lparr>nid = None, ntype = ''encouragement'', title = ''t'', message = ''second'',
           priority = Medium, triggerTime = 2\<rparr>
          (queueNotification
             \<lparr>nid = None, ntype = ''encouragement'', title = ''t'', message = ''first'',
              priority = Medium, triggerTime = 1\<rparr>
             newMentorService))
     = [\<lparr>nid = None, ntype = ''encouragement'', title = ''t'', message = ''first'',
         priority = Medium, triggerTime = 1\<rparr>,
        \<lparr>nid = None, ntype = ''encouragement'', title = ''t'', message = ''second'',
         priority = Medium, triggerTime = 2\<rparr>]
   \<and> notificationQueue
       (fst (checkAndSendNotifications 10 (\<lambda>n. message n = ''second'')
          (queueNotification
             \<lparr>nid = None, ntype = ''encouragement'', title = ''t'', message = ''second'',
              priority = Medium, triggerTime = 2\<rparr>
             (queueNotification
                \<lparr>nid = None, ntype = ''encouragement'', title = ''t'', message = ''first'',
                 priority = Medium, triggerTime = 1\<rparr>
                newMentorService))))
     = []"
  by (simp add: checkAndSendNotifications_eq getPendingNotifications_def
        markNotificationsAsSent_def queueNotification_def sortNotificationQueue_def
        newMentorService_def sortBy_def compareNotifications_def priorityOrder_def)

text \<open>
  Claim C7, amended. On every tick dispatch is attempted for every pending notification,
  in the order returned, whether or not an earlier dispatch failed. When at least one
  notification is pending, \<open>markNotificationsAsSent\<close> is called exactly once, with the ids
  of all the notifications dispatched successfully; when none is pending it is not
  called. The queue afterwards holds the notifications whose id is not among those ids, so
  a failed notification whose id differs from every id sent remains.
\<close>

theorem checkAndSendNotifications_batches_successes:
  "attempted (snd (checkAndSendNotifications now send st))
     = getPendingNotifications now st
   \<and> markCalls (snd (checkAndSendNotifications now send st))
     = (if getPendingNotifications now st = [] then []
        else [map nid (filter send (getPendingNotifications now st))])
   \<and> notificationQueue (fst (checkAndSendNotifications now send st))
     = filter (\<lambda>n. nid n \<notin> set (map nid (filter send (getPendingNotifications now st))))
         (notificationQueue st)
   \<and> (n \<in> set (getPendingNotifications now st) \<and> \<not> send n
        \<and> nid n \<notin> set (map nid (filter send (getPendingNotifications now st)))
       \<longrightarrow> n \<in> set (notificationQueue (fst (checkAndSendNotifications now send st))))"
proof -
  have q: "notificationQueue (fst (checkAndSendNotifications now send st))
     = filter (\<lambda>n. nid n \<notin> set (map nid (filter send (getPendingNotifications now st))))
         (notificationQueue st)"
  proof (cases "getPendingNotifications now st = []")
    case True
    then show ?thesis by (simp add: checkAndSendNotifications_eq)
  next
    case False
    then show ?thesis
      by (simp add: checkAndSendNotifications_eq markNotificationsAsSent_def)
  qed
  have "n \<in> set (notificationQueue st)" if "n \<in> set (getPendingNotifications now st)"
    using that by (simp add: getPendingNotifications_def)
  then show ?thesis
    unfolding q by (simp add: checkAndSendNotifications_eq)
qed

theorem checkAndSendNotifications_batches_successes_witness:
  "notificationQueue
     (fst (checkAndSendNotifications 10 (\<lambda>n. nid n = Some ''b'')
        \<lparr>userProfile = None, conversationHistory = [],
         notificationQueue =
           [\<lparr>nid = Some ''a'', ntype = ''x'', title = ''t'', message = ''first'',
             priority = Medium, triggerTime = 1\<rparr>,
            \<lparr>nid = Some ''b'', ntype = ''x'', title = ''t'', message = ''second'',
             priority = Medium, triggerTime = 2\<rparr>]\<rparr>))
   = [\<lparr>nid = Some ''a'', ntype = ''x'', title = ''t'', message = ''first'',
       priority = Medium, triggerTime = 1\<rparr>]
   \<and> markCalls
       (snd (checkAndSendNotifications 10 (\<lambda>n. nid n = Some ''b'')
          \<lparr>userProfile = None, conversationHistory = [],
           notificationQueue =
             [\<lparr>nid = Some ''a'', ntype = ''x'', title = ''t'', message = ''first'',
               priority = Medium, triggerTime = 1\<rparr>,
              \<lparr>nid = Some ''b'', ntype = ''x'', title = ''t'', message = ''second'',
               priority = Medium, triggerTime = 2\<rparr>]\<rparr>))
     = [[Some ''b'']]"
  using checkAndSendNotifications_batches_successes
    [of 10 "\<lambda>n. nid n = Some ''b''"
        "\<lparr>userProfile = None, conversationHistory = [],
          notificationQueue =
            [\<lparr>nid = Some ''a'', ntype = ''x'', title = ''t'', message = ''first'',
              priority = Medium, triggerTime = 1\<rparr>,
             \<lparr>nid = Some ''b'', ntype = ''x'', title = ''t'', message = ''second'',
              priority = Medium, triggerTime = 2\<rparr>]\<rparr>"
        "\<lparr>nid = Some ''a'', ntype = ''x'', title = ''t'', message = ''first'',
          priority = Medium, triggerTime = 1\<rparr>"]
  by (simp add: getPendingNotifications_def)

end
